theory Spec2Isabelle
  imports Complex_Main "HOL-Library.Word" "HOL-Library.Sublist"
begin

section \<open>JavaScript strings\<close>

text \<open>
  A JavaScript string is a sequence of UTF-16 code units. Text that comes from the user
  or from the server (questions, answers, titles, tokens) is modelled as such a sequence;
  static labels of the JSX are ASCII literals and are kept as HOL strings, converted by
  \<open>lit\<close> where a template literal splices them with dynamic text.
\<close>

type_synonym jsstring = "16 word list"

definition lit :: "string \<Rightarrow> jsstring" where
  "lit s = map (\<lambda>c. of_char c) s"

text \<open>
  \<^verbatim>\<open>String.prototype.trim\<close> strips the code units of the ECMAScript productions
  WhiteSpace and LineTerminator from both ends.
\<close>

definition isWhiteSpace :: "16 word \<Rightarrow> bool" where
  "isWhiteSpace c \<longleftrightarrow>
     c = 0x0009 \<or> c = 0x000A \<or> c = 0x000B \<or> c = 0x000C \<or> c = 0x000D \<or>
     c = 0x0020 \<or> c = 0x00A0 \<or> c = 0x1680 \<or> (0x2000 \<le> c \<and> c \<le> 0x200A) \<or>
     c = 0x2028 \<or> c = 0x2029 \<or> c = 0x202F \<or> c = 0x205F \<or> c = 0x3000 \<or>
     c = 0xFEFF"

definition trim :: "jsstring \<Rightarrow> jsstring" where
  "trim s = rev (dropWhile isWhiteSpace (rev (dropWhile isWhiteSpace s)))"

section \<open>The QuestionAnswer component\<close>

text \<open>
  \<^verbatim>\<open>interface QAPair { question: string; answer: string; timestamp: Date }\<close>
  The timestamp is the value of \<^verbatim>\<open>new Date()\<close>, milliseconds since the epoch.
\<close>

record QAPair =
  pair_question :: jsstring
  pair_answer :: jsstring
  pair_timestamp :: nat

text \<open>The three \<^verbatim>\<open>useState\<close> cells of the component.\<close>

record qa_state =
  question :: jsstring
  isLoading :: bool
  qaPairs :: "QAPair list"

text \<open>The initial values handed to \<^verbatim>\<open>useState\<close>: what a freshly mounted component holds.\<close>

definition qa_init :: qa_state where
  "qa_init = \<lparr>question = [], isLoading = False, qaPairs = []\<rparr>"

text \<open>
  The HTTP requests the client issues, one constructor per URL template; the document
  identifier is the number spliced into the path, the other arguments are the body.
\<close>

datatype request =
    PostAskQuestion int jsstring
  | DeleteDocument int
  | PostLogin jsstring jsstring
  | PostRegister jsstring jsstring jsstring

text \<open>
  What a handler does besides updating the component state, in order: the call of
  \<^verbatim>\<open>e.preventDefault()\<close>, the dialog of \<^verbatim>\<open>window.confirm\<close> (the user's answer to it is
  an input of the handler), a request, a call of \<^verbatim>\<open>console.error\<close>. The error value
  caught from axios is opaque to the client (\<^verbatim>\<open>catch (error)\<close>), hence a type parameter.
\<close>

datatype 'e effect =
    PreventDefault
  | WindowConfirm string
  | Http request
  | ConsoleError string 'e

text \<open>The payload of the ask endpoint as the handler reads it: \<^verbatim>\<open>response.data.answer\<close>.\<close>

record ask_response =
  data_answer :: jsstring

text \<open>
  \<^verbatim>\<open>handleSubmit\<close> up to its \<^verbatim>\<open>await\<close>: the guard on the trimmed question, then
  \<^verbatim>\<open>setIsLoading(true)\<close> and the request. \<open>None\<close> is the early return.
\<close>

definition handleSubmit_send :: "int \<Rightarrow> qa_state \<Rightarrow> (qa_state \<times> request) option" where
  "handleSubmit_send documentId s =
     (if trim (question s) = [] then None
      else Some (s\<lparr>isLoading := True\<rparr>, PostAskQuestion documentId (question s)))"

text \<open>
  \<^verbatim>\<open>handleSubmit\<close> after the \<^verbatim>\<open>await\<close>. The closure holds the \<open>question\<close> and
  \<open>qaPairs\<close> of the render in which the form was submitted (\<open>c\<close>); \<open>s\<close> is the state
  the setters act on. \<open>Inl\<close> is a rejected promise.
\<close>

definition handleSubmit_settle ::
    "nat \<Rightarrow> qa_state \<Rightarrow> 'e + ask_response \<Rightarrow> qa_state \<Rightarrow> qa_state \<times> 'e effect list" where
  "handleSubmit_settle now c outcome s =
     (case outcome of
        Inr response \<Rightarrow>
          (let newQAPair = \<lparr>pair_question = question c, pair_answer = data_answer response,
                            pair_timestamp = now\<rparr>
           in (s\<lparr>qaPairs := newQAPair # qaPairs c, question := [], isLoading := False\<rparr>, []))
      | Inl error \<Rightarrow>
          (s\<lparr>isLoading := False\<rparr>, [ConsoleError ''Error asking question:'' error]))"

text \<open>
  One whole run of \<^verbatim>\<open>handleSubmit\<close> against a server \<open>axios\<close>. The text input is disabled
  while \<open>isLoading\<close> holds and nothing else writes \<open>qaPairs\<close>, so the state the closure
  captured is the state the continuation resumes in.
\<close>

definition handleSubmit ::
    "int \<Rightarrow> (request \<Rightarrow> 'e + ask_response) \<Rightarrow> nat \<Rightarrow> qa_state \<Rightarrow> qa_state \<times> 'e effect list" where
  "handleSubmit documentId axios now s =
     (case handleSubmit_send documentId s of
        None \<Rightarrow> (s, [PreventDefault])
      | Some (s1, req) \<Rightarrow>
          (let (s2, effs) = handleSubmit_settle now s (axios req) s1
           in (s2, PreventDefault # Http req # effs)))"

text \<open>\<^verbatim>\<open>onChange={(e) => setQuestion(e.target.value)}\<close>\<close>

definition setQuestion :: "jsstring \<Rightarrow> qa_state \<Rightarrow> qa_state" where
  "setQuestion v s = s\<lparr>question := v\<rparr>"

text \<open>
  What the component renders: the heading's title, the input, the button and one entry
  per exchange, each with the question, the answer and the timestamp it shows.
\<close>

record qa_view =
  heading_title :: jsstring
  input_value :: jsstring
  input_disabled :: bool
  button_disabled :: bool
  button_label :: string
  exchanges :: "(jsstring \<times> jsstring \<times> nat) list"

definition render_QuestionAnswer :: "jsstring \<Rightarrow> qa_state \<Rightarrow> qa_view" where
  "render_QuestionAnswer documentTitle s =
     \<lparr>heading_title = documentTitle,
      input_value = question s,
      input_disabled = isLoading s,
      button_disabled = (isLoading s \<or> trim (question s) = []),
      button_label = (if isLoading s then ''Asking...'' else ''Ask''),
      exchanges = map (\<lambda>pair. (pair_question pair, pair_answer pair, pair_timestamp pair))
                      (qaPairs s)\<rparr>"

text \<open>The requests among the effects of a handler.\<close>

fun requests_of :: "'e effect list \<Rightarrow> request list" where
  "requests_of [] = []"
| "requests_of (Http r # es) = r # requests_of es"
| "requests_of (_ # es) = requests_of es"

section \<open>Errors of the pipeline and of a request\<close>

text \<open>
  Modelled from the spec: the error taxonomy of the pipeline (design section 7), which the
  backend, not among the sources at hand, reports in its error payloads. The client's
  \<^verbatim>\<open>catch\<close> receives from axios such a payload, or no response at all.
\<close>

datatype core_error =
    UnsupportedFormat
  | ExtractionFailed
  | EmbeddingProviderError
  | IndexNotReady
  | DocumentNotReady
  | AnswerGenerationFailed

datatype ask_failure = ErrorPayload core_error | NetworkError

section \<open>The DocumentList component\<close>

text \<open>
  \<^verbatim>\<open>interface Document { id: number; title: string; file: string; uploaded_at: string;
  processed: boolean }\<close>, the entries of the list endpoint's payload
  (\<open>doc_id\<close> and \<open>file_url\<close> are the fields \<open>id\<close> and \<open>file\<close>).
\<close>

record Document =
  doc_id :: int
  title :: jsstring
  file_url :: jsstring
  uploaded_at :: jsstring
  processed :: bool

record doc_list_state =
  documents :: "Document list"
  selectedDocument :: "Document option"
  loading :: bool

definition doc_list_init :: doc_list_state where
  "doc_list_init = \<lparr>documents = [], selectedDocument = None, loading = True\<rparr>"

text \<open>
  \<^verbatim>\<open>handleDelete\<close> up to its \<^verbatim>\<open>await\<close>: the dialog, and the request if the user
  confirms (\<open>confirmed\<close> is the user's answer). No state cell is written, and the list
  with its Delete buttons and rows stays enabled while the request is in flight.
\<close>

definition handleDelete_send :: "bool \<Rightarrow> int \<Rightarrow> request option" where
  "handleDelete_send confirmed documentId =
     (if confirmed then Some (DeleteDocument documentId) else None)"

text \<open>
  \<^verbatim>\<open>handleDelete\<close> after the \<^verbatim>\<open>await\<close>. The handler reads \<open>documents\<close> and
  \<open>selectedDocument\<close> from its closure, the render in which the button was clicked
  (\<open>c\<close>), and its setters write the state as it is when the request settles (\<open>s\<close>):
  \<^verbatim>\<open>setDocuments(documents.filter(...))\<close> stores the filtered list of the closure, and
  \<^verbatim>\<open>setSelectedDocument(null)\<close> runs if the closure's selection has the identifier
  (\<open>selectedDocument?.id === documentId\<close> is false when nothing was selected).
\<close>

definition handleDelete_settle ::
    "doc_list_state \<Rightarrow> int \<Rightarrow> 'e + unit \<Rightarrow> doc_list_state
      \<Rightarrow> doc_list_state \<times> 'e effect list" where
  "handleDelete_settle c documentId outcome s =
     (case outcome of
        Inr _ \<Rightarrow>
          (s\<lparr>documents := filter (\<lambda>doc. doc_id doc \<noteq> documentId) (documents c),
             selectedDocument :=
               (if map_option doc_id (selectedDocument c) = Some documentId then None
                else selectedDocument s)\<rparr>,
           [])
      | Inl error \<Rightarrow> (s, [ConsoleError ''Error deleting document:'' error]))"

text \<open>
  One whole run of \<^verbatim>\<open>handleDelete\<close> during which nothing else writes the list's
  state, so that the closure's values are the current ones.
\<close>

definition handleDelete ::
    "bool \<Rightarrow> (request \<Rightarrow> 'e + unit) \<Rightarrow> int \<Rightarrow> doc_list_state
      \<Rightarrow> doc_list_state \<times> 'e effect list" where
  "handleDelete confirmed axios documentId s =
     (case handleDelete_send confirmed documentId of
        None \<Rightarrow> (s, [WindowConfirm ''Are you sure you want to delete this document?''])
      | Some req \<Rightarrow>
          (let (s', effs) = handleDelete_settle s documentId (axios req) s
           in (s', WindowConfirm ''Are you sure you want to delete this document?''
                     # Http req # effs)))"

text \<open>\<^verbatim>\<open>onClick={() => setSelectedDocument(doc)}\<close>\<close>

definition setSelectedDocument :: "Document option \<Rightarrow> doc_list_state \<Rightarrow> doc_list_state" where
  "setSelectedDocument d s = s\<lparr>selectedDocument := d\<rparr>"

text \<open>The badge of a list entry.\<close>

definition status_badge :: "Document \<Rightarrow> string" where
  "status_badge doc = (if processed doc then ''Processed'' else ''Processing...'')"

definition status_badge_class :: "Document \<Rightarrow> string" where
  "status_badge_class doc =
     (if processed doc then ''bg-green-100 text-green-800''
      else ''bg-yellow-100 text-yellow-800'')"

text \<open>
  The right-hand column: the question form with its two props, the notice that the
  selected document is still being processed, or the prompt to select a document.
\<close>

datatype panel =
    QuestionAnswerPanel int jsstring
  | ProcessingPanel jsstring
  | SelectPanel

definition right_panel :: "Document option \<Rightarrow> panel" where
  "right_panel sel =
     (case sel of
        Some doc \<Rightarrow>
          (if processed doc then QuestionAnswerPanel (doc_id doc) (title doc)
           else ProcessingPanel (title doc))
      | None \<Rightarrow> SelectPanel)"

record doc_row =
  row_title :: jsstring
  row_uploaded_at :: jsstring
  row_badge :: string
  row_badge_class :: string
  row_selected :: bool

datatype doc_list_view =
    LoadingDocuments
  | Loaded "doc_row list" panel

definition render_DocumentList :: "doc_list_state \<Rightarrow> doc_list_view" where
  "render_DocumentList s =
     (if loading s then LoadingDocuments
      else Loaded
        (map (\<lambda>doc. \<lparr>row_title = title doc, row_uploaded_at = uploaded_at doc,
                     row_badge = status_badge doc, row_badge_class = status_badge_class doc,
                     row_selected = (map_option doc_id (selectedDocument s) = Some (doc_id doc))\<rparr>)
           (documents s))
        (right_panel (selectedDocument s)))"

section \<open>The list and the form it mounts\<close>

text \<open>
  \<^verbatim>\<open>fetchDocuments\<close>, run once by the effect of the first render: the payload
  replaces \<open>documents\<close>, and \<open>loading\<close> is cleared whether or not the request failed.
\<close>

definition fetchDocuments :: "'e + Document list \<Rightarrow> doc_list_state \<Rightarrow> doc_list_state" where
  "fetchDocuments outcome s =
     (case outcome of
        Inr data \<Rightarrow> s\<lparr>documents := data, loading := False\<rparr>
      | Inl error \<Rightarrow> s\<lparr>loading := False\<rparr>)"

text \<open>
  The props of the \<^verbatim>\<open><QuestionAnswer>\<close> element in the output of a render, if there
  is one: none while the list is loading, none unless a processed document is selected.
\<close>

definition form_props :: "doc_list_state \<Rightarrow> (int \<times> jsstring) option" where
  "form_props s =
     (case render_DocumentList s of
        Loaded rows (QuestionAnswerPanel documentId documentTitle) \<Rightarrow>
          Some (documentId, documentTitle)
      | _ \<Rightarrow> None)"

text \<open>
  The state cells of a component live as long as an element of the same component type
  is rendered at the same place of its parent's output: a re-render that puts the
  \<^verbatim>\<open><QuestionAnswer>\<close> element there again, whatever its props, keeps the cells, one
  that renders something else discards them, and an element that appears afresh starts
  from the initial values. The element is rendered without a \<^verbatim>\<open>key\<close>.
\<close>

definition reconcile :: "doc_list_state \<Rightarrow> qa_state option \<Rightarrow> qa_state option" where
  "reconcile s mounted =
     (case form_props s of
        None \<Rightarrow> None
      | Some props \<Rightarrow> (case mounted of None \<Rightarrow> Some qa_init | Some c \<Rightarrow> Some c))"

record list_tree =
  list_state :: doc_list_state
  child :: "qa_state option"

definition mount_DocumentList :: list_tree where
  "mount_DocumentList = \<lparr>list_state = doc_list_init, child = reconcile doc_list_init None\<rparr>"

text \<open>A state update of the list, followed by the re-render it causes.\<close>

definition update_list :: "(doc_list_state \<Rightarrow> doc_list_state) \<Rightarrow> list_tree \<Rightarrow> list_tree" where
  "update_list f t =
     \<lparr>list_state = f (list_state t), child = reconcile (f (list_state t)) (child t)\<rparr>"

text \<open>The events of the user: a click on a list entry, typing into the form, submitting it.\<close>

definition click_document :: "Document \<Rightarrow> list_tree \<Rightarrow> list_tree" where
  "click_document doc = update_list (setSelectedDocument (Some doc))"

definition type_question :: "jsstring \<Rightarrow> list_tree \<Rightarrow> list_tree" where
  "type_question v t = t\<lparr>child := map_option (setQuestion v) (child t)\<rparr>"

definition submit_question ::
    "(request \<Rightarrow> 'e + ask_response) \<Rightarrow> nat \<Rightarrow> list_tree \<Rightarrow> list_tree \<times> 'e effect list" where
  "submit_question axios now t =
     (case (form_props (list_state t), child t) of
        (Some (documentId, documentTitle), Some c) \<Rightarrow>
          (let (c', effs) = handleSubmit documentId axios now c
           in (t\<lparr>child := Some c'\<rparr>, effs))
      | _ \<Rightarrow> (t, []))"

section \<open>Processing states\<close>

text \<open>
  Modelled from the spec: the processing states of the ingestion state machine (design
  section 4.5), kept by the backend, which is not among the sources at hand.
\<close>

datatype processing_state = pending | processing | ready | failed

section \<open>The authentication context\<close>

text \<open>\<^verbatim>\<open>interface User { id: number; username: string }\<close>\<close>

record User =
  user_id :: int
  username :: jsstring

text \<open>
  The state cells of \<^verbatim>\<open>AuthProvider\<close> together with the two places outside React
  that its functions write: the entry \<open>token\<close> of \<^verbatim>\<open>localStorage\<close> and the
  \<open>Authorization\<close> entry of \<^verbatim>\<open>axios.defaults.headers.common\<close>. \<open>auth_isLoading\<close> is the
  provider's cell \<open>isLoading\<close>.
\<close>

record auth_world =
  user :: "User option"
  token :: "jsstring option"
  auth_isLoading :: bool
  localStorage_token :: "jsstring option"
  authorization :: "jsstring option"

text \<open>
  A page load: the cells hold their initial values, the header table of the freshly
  loaded axios module has no \<open>Authorization\<close> entry, and \<^verbatim>\<open>localStorage\<close> holds what
  earlier visits left there.
\<close>

definition auth_mount :: "jsstring option \<Rightarrow> auth_world" where
  "auth_mount stored =
     \<lparr>user = None, token = None, auth_isLoading = True, localStorage_token = stored,
      authorization = None\<rparr>"

text \<open>The effect of the first render. An empty string is falsy, like a missing entry.\<close>

definition auth_effect :: "auth_world \<Rightarrow> auth_world" where
  "auth_effect w =
     (case localStorage_token w of
        Some savedToken \<Rightarrow>
          (if savedToken \<noteq> []
           then w\<lparr>token := Some savedToken,
                  authorization := Some (lit ''Token '' @ savedToken),
                  auth_isLoading := False\<rparr>
           else w\<lparr>auth_isLoading := False\<rparr>)
      | None \<Rightarrow> w\<lparr>auth_isLoading := False\<rparr>)"

text \<open>The payload of the login and register endpoints: \<^verbatim>\<open>{ token, user_id }\<close>.\<close>

record auth_payload =
  data_token :: jsstring
  data_user_id :: int

text \<open>
  What the \<^verbatim>\<open>catch\<close> of \<^verbatim>\<open>login\<close> and \<^verbatim>\<open>register\<close> can receive: the rejection
  of the request, or the exception of \<^verbatim>\<open>localStorage.setItem\<close> (the store is full or
  refuses writes), which is thrown inside the same \<^verbatim>\<open>try\<close>.
\<close>

datatype 'e thrown = Rejected 'e | SetItemThrew

text \<open>
  \<^verbatim>\<open>login\<close>, statement by statement: the request; on a payload \<^verbatim>\<open>setToken\<close> and
  \<^verbatim>\<open>setUser\<close>, then \<^verbatim>\<open>localStorage.setItem\<close>, then the header, then \<open>true\<close>. An
  exception ends the \<^verbatim>\<open>try\<close> where it is thrown: the catch logs it and returns
  \<open>false\<close>, and what was written before stays written. \<open>setItem_throws\<close> says whether
  the store refuses the write.
\<close>

definition login ::
    "(request \<Rightarrow> 'e + auth_payload) \<Rightarrow> bool \<Rightarrow> jsstring \<Rightarrow> jsstring \<Rightarrow> auth_world
      \<Rightarrow> bool \<times> auth_world \<times> 'e thrown effect list" where
  "login axios setItem_throws name password w =
     (case axios (PostLogin name password) of
        Inl err \<Rightarrow>
          (False, w,
           [Http (PostLogin name password), ConsoleError ''Login error:'' (Rejected err)])
      | Inr data \<Rightarrow>
          (let w1 = w\<lparr>token := Some (data_token data),
                      user := Some \<lparr>user_id = data_user_id data, username = name\<rparr>\<rparr>
           in if setItem_throws
              then (False, w1,
                    [Http (PostLogin name password), ConsoleError ''Login error:'' SetItemThrew])
              else (True,
                    w1\<lparr>localStorage_token := Some (data_token data),
                       authorization := Some (lit ''Token '' @ data_token data)\<rparr>,
                    [Http (PostLogin name password)])))"

text \<open>\<^verbatim>\<open>register\<close>: the same statements after its own request.\<close>

definition register ::
    "(request \<Rightarrow> 'e + auth_payload) \<Rightarrow> bool \<Rightarrow> jsstring \<Rightarrow> jsstring \<Rightarrow> jsstring
      \<Rightarrow> auth_world \<Rightarrow> bool \<times> auth_world \<times> 'e thrown effect list" where
  "register axios setItem_throws name password email w =
     (case axios (PostRegister name password email) of
        Inl err \<Rightarrow>
          (False, w,
           [Http (PostRegister name password email),
            ConsoleError ''Registration error:'' (Rejected err)])
      | Inr data \<Rightarrow>
          (let w1 = w\<lparr>token := Some (data_token data),
                      user := Some \<lparr>user_id = data_user_id data, username = name\<rparr>\<rparr>
           in if setItem_throws
              then (False, w1,
                    [Http (PostRegister name password email),
                     ConsoleError ''Registration error:'' SetItemThrew])
              else (True,
                    w1\<lparr>localStorage_token := Some (data_token data),
                       authorization := Some (lit ''Token '' @ data_token data)\<rparr>,
                    [Http (PostRegister name password email)])))"

definition logout :: "auth_world \<Rightarrow> auth_world" where
  "logout w = w\<lparr>token := None, user := None, localStorage_token := None, authorization := None\<rparr>"

text \<open>
  The header is set, to \<open>Token\<close> followed by the token, exactly when the context holds a
  token and \<^verbatim>\<open>localStorage\<close> holds the same one.
\<close>

definition auth_inv :: "auth_world \<Rightarrow> bool" where
  "auth_inv w \<longleftrightarrow>
     authorization w =
       (case token w of
          Some t \<Rightarrow> (if localStorage_token w = Some t then Some (lit ''Token '' @ t) else None)
        | None \<Rightarrow> None)"

text \<open>
  The calls a user of the context can make, each with the outcome of its request and
  with whether the store refuses the write.
\<close>

datatype 'e auth_op =
    Login jsstring jsstring "'e + auth_payload" bool
  | Register jsstring jsstring jsstring "'e + auth_payload" bool
  | Logout

fun auth_call :: "'e auth_op \<Rightarrow> auth_world \<Rightarrow> auth_world" where
  "auth_call (Login name password outcome setItem_throws) w =
     fst (snd (login (\<lambda>r. outcome) setItem_throws name password w))"
| "auth_call (Register name password email outcome setItem_throws) w =
     fst (snd (register (\<lambda>r. outcome) setItem_throws name password email w))"
| "auth_call Logout w = logout w"

fun auth_calls :: "'e auth_op list \<Rightarrow> auth_world \<Rightarrow> auth_world" where
  "auth_calls [] w = w"
| "auth_calls (c # cs) w = auth_calls cs (auth_call c w)"

fun store_accepts :: "'e auth_op \<Rightarrow> bool" where
  "store_accepts (Login name password outcome setItem_throws) = (\<not> setItem_throws)"
| "store_accepts (Register name password email outcome setItem_throws) = (\<not> setItem_throws)"
| "store_accepts Logout = True"

section \<open>The retrieval pipeline behind the endpoints\<close>

text \<open>
  Modelled from the spec: the vector index of design section 4.4. The backend that
  implements it is not among the sources at hand, so passages, similarity and query
  follow the specification's wording: a passage has an ordinal, a text and an embedding;
  similarity is the cosine of query vector and embedding (over the reals, the ideal the
  floating-point computation approximates; the specification leaves the cosine with a
  zero vector open, here it is the value of a division by zero in HOL, which is 0); a
  query scans all passages of the document, ranks them by descending similarity, earlier
  ordinal first among equals, and returns the first \<open>k\<close>; a document without an index
  yields \<open>IndexNotReady\<close>.
\<close>

record passage =
  ordinal :: nat
  passage_text :: jsstring
  vector :: "real list"

definition dot :: "real list \<Rightarrow> real list \<Rightarrow> real" where
  "dot u v = sum_list (map (\<lambda>(a, b). a * b) (zip u v))"

definition cosine :: "real list \<Rightarrow> real list \<Rightarrow> real" where
  "cosine u v = dot u v / (sqrt (dot u u) * sqrt (dot v v))"

type_synonym scored = "passage \<times> real"

definition ranks_before :: "scored \<Rightarrow> scored \<Rightarrow> bool" where
  "ranks_before a b \<longleftrightarrow>
     snd b < snd a \<or> (snd a = snd b \<and> ordinal (fst a) \<le> ordinal (fst b))"

fun place :: "scored \<Rightarrow> scored list \<Rightarrow> scored list" where
  "place x [] = [x]"
| "place x (y # ys) = (if ranks_before x y then x # y # ys else y # place x ys)"

fun rank_all :: "scored list \<Rightarrow> scored list" where
  "rank_all [] = []"
| "rank_all (x # xs) = place x (rank_all xs)"

definition query ::
    "(int \<rightharpoonup> passage list) \<Rightarrow> int \<Rightarrow> real list \<Rightarrow> nat \<Rightarrow> core_error + scored list" where
  "query idx documentId queryVector k =
     (case idx documentId of
        None \<Rightarrow> Inl IndexNotReady
      | Some ps \<Rightarrow>
          Inr (take k (rank_all (map (\<lambda>p. (p, cosine queryVector (vector p))) ps))))"

text \<open>
  Modelled from the spec: the answerer of design section 4.6 (not among the sources at
  hand). It requires the document's state to be \<open>ready\<close> and fails with
  \<open>DocumentNotReady\<close> otherwise, also for a document that does not exist; then it embeds
  the question, queries the index for the top \<open>K\<close> passages, and hands question and the
  passage texts, concatenated in rank order, to the generation step, whose output it
  returns as it is. No passage retrieved: the fixed fallback text, without generation.
  A failed generation: \<open>AnswerGenerationFailed\<close>. Embedder, generation step and \<open>K\<close>
  are parameters.
\<close>

definition fallback :: jsstring where
  "fallback = lit ''no relevant content found''"

definition answer ::
    "(int \<rightharpoonup> processing_state) \<Rightarrow> (int \<rightharpoonup> passage list) \<Rightarrow> (jsstring \<Rightarrow> real list)
      \<Rightarrow> (jsstring \<Rightarrow> jsstring \<Rightarrow> jsstring option) \<Rightarrow> nat
      \<Rightarrow> int \<Rightarrow> jsstring \<Rightarrow> core_error + jsstring" where
  "answer states idx embedder generate K documentId q =
     (if states documentId \<noteq> Some ready then Inl DocumentNotReady
      else
        (case query idx documentId (embedder q) K of
           Inl e \<Rightarrow> Inl e
         | Inr [] \<Rightarrow> Inr fallback
         | Inr (r # rs) \<Rightarrow>
             (case generate q (concat (map (\<lambda>x. passage_text (fst x)) (r # rs))) of
                None \<Rightarrow> Inl AnswerGenerationFailed
              | Some out \<Rightarrow> Inr out)))"

section \<open>The text extractor and the upload form\<close>

text \<open>
  Modelled from the spec: the text extractor of design section 4.1 (not among the sources
  at hand; \<open>extract_blocks\<close> is its \<open>extract\<close>). An uploaded file is a PDF, a plain
  text or something else; a PDF's text is extracted page by page and pages without text
  are dropped, a plain text is one block, unreadable content is \<open>ExtractionFailed\<close>, any
  other type is \<open>UnsupportedFormat\<close>. \<open>None\<close> stands for content that cannot be read.
\<close>

datatype file_type = PDF | PlainText | OtherType

datatype raw_file =
    PdfFile "jsstring list option"
  | TextFile "jsstring option"
  | OtherFile

fun type_of_file :: "raw_file \<Rightarrow> file_type" where
  "type_of_file (PdfFile pages) = PDF"
| "type_of_file (TextFile content) = PlainText"
| "type_of_file OtherFile = OtherType"

fun extract_blocks :: "raw_file \<Rightarrow> core_error + jsstring list" where
  "extract_blocks (PdfFile None) = Inl ExtractionFailed"
| "extract_blocks (PdfFile (Some pages)) = Inr (filter (\<lambda>block. block \<noteq> []) pages)"
| "extract_blocks (TextFile None) = Inl ExtractionFailed"
| "extract_blocks (TextFile (Some content)) = Inr [content]"
| "extract_blocks OtherFile = Inl UnsupportedFormat"

text \<open>
  The file input of the upload form: \<^verbatim>\<open>accept=".pdf,.txt"\<close>, a comma-separated list of
  file-name extensions the file picker offers. The form's submit handler sends whatever
  file is selected; it checks only that a file and a title are present.
\<close>

definition DocumentUpload_accept :: "string list" where
  "DocumentUpload_accept = [''.pdf'', ''.txt'']"

text \<open>Modelled from the spec: the file type a file-name extension stands for.\<close>

definition type_of_extension :: "string \<Rightarrow> file_type" where
  "type_of_extension ext =
     (if ext = ''.pdf'' then PDF else if ext = ''.txt'' then PlainText else OtherType)"

section \<open>Properties of the question form\<close>

lemma dropWhile_all_left: "(\<forall>x \<in> set (dropWhile P xs). P x) \<longleftrightarrow> (\<forall>x \<in> set xs. P x)"
proof
  assume rest: "\<forall>x \<in> set (dropWhile P xs). P x"
  have "dropWhile P xs = []"
  proof (rule ccontr)
    assume ne: "dropWhile P xs \<noteq> []"
    then have "\<not> P (hd (dropWhile P xs))" by (rule hd_dropWhile)
    moreover from ne have "hd (dropWhile P xs) \<in> set (dropWhile P xs)" by simp
    ultimately show False using rest by blast
  qed
  then show "\<forall>x \<in> set xs. P x" by (simp add: dropWhile_eq_Nil_conv)
next
  assume "\<forall>x \<in> set xs. P x"
  then show "\<forall>x \<in> set (dropWhile P xs). P x" by (blast dest: set_dropWhileD)
qed

lemma trim_empty_iff: "trim s = [] \<longleftrightarrow> (\<forall>c \<in> set s. isWhiteSpace c)"
  by (simp add: trim_def dropWhile_eq_Nil_conv dropWhile_all_left)

text \<open>
  C9. Submitting the form while the question is empty or consists of white space only
  issues no request and leaves the question, the loading flag and the exchange list as
  they were; the button is disabled exactly when the loading flag is set or the trimmed
  question is empty. The loading flag is set while a request is in flight: a submission
  that sends a request sets it, so that the button is disabled from then on whatever the
  question field holds, and only the settling of the request clears it.
\<close>

theorem blank_question_is_ignored:
  "((\<forall>c \<in> set (question s). isWhiteSpace c) \<longrightarrow>
     fst (handleSubmit documentId axios now s) = s
     \<and> requests_of (snd (handleSubmit documentId axios now s)) = []
     \<and> handleSubmit_send documentId s = None)
   \<and> (button_disabled (render_QuestionAnswer documentTitle s)
     \<longleftrightarrow> isLoading s \<or> (\<forall>c \<in> set (question s). isWhiteSpace c))
   \<and> (handleSubmit_send documentId s = Some (pending_s, req) \<longrightarrow>
        isLoading pending_s
        \<and> button_disabled (render_QuestionAnswer documentTitle pending_s)
        \<and> input_disabled (render_QuestionAnswer documentTitle pending_s)
        \<and> button_disabled (render_QuestionAnswer documentTitle (setQuestion v pending_s))
        \<and> \<not> isLoading (fst (handleSubmit_settle now c outcome pending_s)))"
proof -
  have blank: "(\<forall>c \<in> set (question s). isWhiteSpace c) \<longrightarrow>
      fst (handleSubmit documentId axios now s) = s
      \<and> requests_of (snd (handleSubmit documentId axios now s)) = []
      \<and> handleSubmit_send documentId s = None"
    by (simp add: handleSubmit_def handleSubmit_send_def trim_empty_iff)
  have button: "button_disabled (render_QuestionAnswer documentTitle s)
      \<longleftrightarrow> isLoading s \<or> (\<forall>c \<in> set (question s). isWhiteSpace c)"
    by (simp add: render_QuestionAnswer_def trim_empty_iff)
  have flight: "handleSubmit_send documentId s = Some (pending_s, req) \<longrightarrow>
      isLoading pending_s
      \<and> button_disabled (render_QuestionAnswer documentTitle pending_s)
      \<and> input_disabled (render_QuestionAnswer documentTitle pending_s)
      \<and> button_disabled (render_QuestionAnswer documentTitle (setQuestion v pending_s))
      \<and> \<not> isLoading (fst (handleSubmit_settle now c outcome pending_s))"
    by (auto simp: handleSubmit_send_def handleSubmit_settle_def render_QuestionAnswer_def
        setQuestion_def split: if_splits sum.splits)
  from blank button flight show ?thesis by (rule conjI [OF _ conjI])
qed

theorem blank_question_is_ignored_witness:
  "list_all isWhiteSpace (question \<lparr>question = [0x20, 0x09], isLoading = False, qaPairs = []\<rparr>)
   \<and> fst (handleSubmit 7 (\<lambda>r. Inl ()) 0 \<lparr>question = [0x20, 0x09], isLoading = False, qaPairs = []\<rparr>)
       = \<lparr>question = [0x20, 0x09], isLoading = False, qaPairs = []\<rparr>
   \<and> requests_of (snd (handleSubmit 7 (\<lambda>r. Inl ()) 0
         \<lparr>question = [0x20, 0x09], isLoading = False, qaPairs = []\<rparr>)) = []
   \<and> button_disabled (render_QuestionAnswer []
         \<lparr>question = [0x20, 0x09], isLoading = False, qaPairs = []\<rparr>)
   \<and> handleSubmit_send 7 \<lparr>question = lit ''why?'', isLoading = False, qaPairs = []\<rparr>
       = Some (\<lparr>question = lit ''why?'', isLoading = True, qaPairs = []\<rparr>,
               PostAskQuestion 7 (lit ''why?''))
   \<and> \<not> button_disabled (render_QuestionAnswer []
         \<lparr>question = lit ''why?'', isLoading = False, qaPairs = []\<rparr>)
   \<and> button_disabled (render_QuestionAnswer []
         \<lparr>question = lit ''why?'', isLoading = True, qaPairs = []\<rparr>)
   \<and> \<not> isLoading (fst (handleSubmit_settle 0
         \<lparr>question = lit ''why?'', isLoading = False, qaPairs = []\<rparr>
         (Inl () :: unit + ask_response)
         \<lparr>question = lit ''why?'', isLoading = True, qaPairs = []\<rparr>))"
proof -
  let ?blank = "\<lparr>question = [0x20, 0x09], isLoading = False, qaPairs = []\<rparr>"
  let ?s = "\<lparr>question = lit ''why?'', isLoading = False, qaPairs = []\<rparr>"
  let ?s1 = "\<lparr>question = lit ''why?'', isLoading = True, qaPairs = []\<rparr>"
  have spaces: "\<forall>c \<in> set (question ?blank). isWhiteSpace c"
    by (simp add: isWhiteSpace_def)
  have letters: "\<not> (\<forall>c \<in> set (question ?s). isWhiteSpace c)"
    by (simp add: lit_def isWhiteSpace_def)
  then have "trim (question ?s) \<noteq> []" unfolding trim_empty_iff .
  then have sent: "handleSubmit_send 7 ?s = Some (?s1, PostAskQuestion 7 (lit ''why?''))"
    by (simp add: handleSubmit_send_def)
  note ignored = blank_question_is_ignored
    [where s = ?blank and documentId = 7 and axios = "\<lambda>r. Inl ()" and now = 0
       and documentTitle = "[]"]
  note flying = blank_question_is_ignored
    [where s = ?s and documentId = 7 and documentTitle = "[]" and pending_s = ?s1
       and req = "PostAskQuestion 7 (lit ''why?'')" and now = 0 and c = ?s
       and outcome = "Inl () :: unit + ask_response" and axios = "\<lambda>r. Inl ()" and v = "[]"]
  from ignored spaces
  have a: "fst (handleSubmit 7 (\<lambda>r. Inl ()) 0 ?blank) = ?blank"
    and b: "requests_of (snd (handleSubmit 7 (\<lambda>r. Inl ()) 0 ?blank)) = []"
    and c: "button_disabled (render_QuestionAnswer [] ?blank)"
    by blast+
  from flying
  have "button_disabled (render_QuestionAnswer [] ?s)
      \<longleftrightarrow> isLoading ?s \<or> (\<forall>c \<in> set (question ?s). isWhiteSpace c)"
    by blast
  with letters have d: "\<not> button_disabled (render_QuestionAnswer [] ?s)"
    by simp
  from flying sent
  have e: "button_disabled (render_QuestionAnswer [] ?s1)"
    and f: "\<not> isLoading (fst (handleSubmit_settle 0 ?s (Inl () :: unit + ask_response) ?s1))"
    by blast+
  from spaces have "list_all isWhiteSpace (question ?blank)" by (simp add: list_all_iff)
  with a b c sent d e f show ?thesis by blast
qed

text \<open>
  C4. When the form is submitted with a non-blank question and the endpoint answers with
  a payload, the handler has sent one request, carrying the document identifier and the
  question text as typed, and the exchange it records and the entry rendered for it hold
  the question and the payload's answer string as they are.
\<close>

theorem ask_exchange_is_verbatim:
  assumes "trim (question s) \<noteq> []"
    and "axios (PostAskQuestion documentId (question s)) = Inr response"
  shows "requests_of (snd (handleSubmit documentId axios now s))
           = [PostAskQuestion documentId (question s)]
       \<and> qaPairs (fst (handleSubmit documentId axios now s))
           = \<lparr>pair_question = question s, pair_answer = data_answer response,
               pair_timestamp = now\<rparr> # qaPairs s
       \<and> exchanges (render_QuestionAnswer documentTitle (fst (handleSubmit documentId axios now s)))
           = (question s, data_answer response, now)
               # exchanges (render_QuestionAnswer documentTitle s)"
  using assms
  by (simp add: handleSubmit_def handleSubmit_send_def handleSubmit_settle_def
      render_QuestionAnswer_def)

theorem ask_exchange_is_verbatim_witness:
  "trim (question \<lparr>question = lit ''why?'', isLoading = False, qaPairs = []\<rparr>) \<noteq> []
   \<and> requests_of (snd (handleSubmit 3
         (\<lambda>r. Inr \<lparr>data_answer = lit '' 42 ''\<rparr> :: unit + ask_response) 1000
         \<lparr>question = lit ''why?'', isLoading = False, qaPairs = []\<rparr>))
       = [PostAskQuestion 3 (lit ''why?'')]
   \<and> exchanges (render_QuestionAnswer (lit ''Report'')
         (fst (handleSubmit 3
            (\<lambda>r. Inr \<lparr>data_answer = lit '' 42 ''\<rparr> :: unit + ask_response) 1000
            \<lparr>question = lit ''why?'', isLoading = False, qaPairs = []\<rparr>)))
       = [(lit ''why?'', lit '' 42 '', 1000)]"
proof -
  have nonblank:
    "trim (question \<lparr>question = lit ''why?'', isLoading = False, qaPairs = []\<rparr>) \<noteq> []"
    by (simp add: trim_def lit_def isWhiteSpace_def)
  have served: "(\<lambda>r. Inr \<lparr>data_answer = lit '' 42 ''\<rparr> :: unit + ask_response)
      (PostAskQuestion 3 (question \<lparr>question = lit ''why?'', isLoading = False, qaPairs = []\<rparr>))
      = Inr \<lparr>data_answer = lit '' 42 ''\<rparr>"
    by simp
  show ?thesis
    using nonblank ask_exchange_is_verbatim
      [where now = 1000 and documentTitle = "lit ''Report''" and documentId = 3,
       OF nonblank served]
    by (simp add: render_QuestionAnswer_def)
qed

section \<open>Failed ask requests\<close>

lemma handleSubmit_rejected:
  assumes "trim (question s) \<noteq> []"
    and "axios (PostAskQuestion documentId (question s)) = Inl err"
  shows "handleSubmit documentId axios now s =
           (s\<lparr>isLoading := False\<rparr>,
            [PreventDefault, Http (PostAskQuestion documentId (question s)),
             ConsoleError ''Error asking question:'' err])"
  using assms
  by (simp add: handleSubmit_def handleSubmit_send_def handleSubmit_settle_def)

text \<open>
  C2, as stated, fails. A form holding the question \<open>why?\<close> is submitted for document 1
  and the request is rejected, once because the document is not ready and once because
  generation failed: both times the component renders exactly what it rendered before the
  submission, so the user sees neither that the request failed nor why.
\<close>

theorem failed_ask_not_shown_counterexample:
  "render_QuestionAnswer (lit ''Report'')
      (fst (handleSubmit 1 (\<lambda>r. Inl (ErrorPayload DocumentNotReady)) 5
         \<lparr>question = lit ''why?'', isLoading = False, qaPairs = []\<rparr>))
     = render_QuestionAnswer (lit ''Report'')
         \<lparr>question = lit ''why?'', isLoading = False, qaPairs = []\<rparr>
   \<and> render_QuestionAnswer (lit ''Report'')
      (fst (handleSubmit 1 (\<lambda>r. Inl (ErrorPayload AnswerGenerationFailed)) 5
         \<lparr>question = lit ''why?'', isLoading = False, qaPairs = []\<rparr>))
     = render_QuestionAnswer (lit ''Report'')
         \<lparr>question = lit ''why?'', isLoading = False, qaPairs = []\<rparr>
   \<and> requests_of (snd (handleSubmit 1 (\<lambda>r. Inl (ErrorPayload DocumentNotReady)) 5
         \<lparr>question = lit ''why?'', isLoading = False, qaPairs = []\<rparr>))
     = [PostAskQuestion 1 (lit ''why?'')]"
proof -
  have nonblank:
    "trim (question \<lparr>question = lit ''why?'', isLoading = False, qaPairs = []\<rparr>) \<noteq> []"
    by (simp add: trim_def lit_def isWhiteSpace_def)
  show ?thesis
    by (simp add: handleSubmit_rejected [OF nonblank])
qed

text \<open>
  C2, amended. When an ask request fails, the handler writes the error it caught, cause
  included, to the console and does nothing else with it: the question text and the
  exchange list stay as they were, the loading flag is cleared, and what is rendered
  afterwards is the same whatever the cause was.
\<close>

theorem failed_ask_is_logged_only:
  assumes "trim (question s) \<noteq> []"
    and "axios (PostAskQuestion documentId (question s)) = Inl err"
    and "axios' (PostAskQuestion documentId (question s)) = Inl err'"
  shows "snd (handleSubmit documentId axios now s)
           = [PreventDefault, Http (PostAskQuestion documentId (question s)),
              ConsoleError ''Error asking question:'' err]
       \<and> question (fst (handleSubmit documentId axios now s)) = question s
       \<and> qaPairs (fst (handleSubmit documentId axios now s)) = qaPairs s
       \<and> isLoading (fst (handleSubmit documentId axios now s)) = False
       \<and> render_QuestionAnswer documentTitle (fst (handleSubmit documentId axios now s))
           = render_QuestionAnswer documentTitle (fst (handleSubmit documentId axios' now s))"
proof -
  have run: "handleSubmit documentId axios now s =
      (s\<lparr>isLoading := False\<rparr>,
       [PreventDefault, Http (PostAskQuestion documentId (question s)),
        ConsoleError ''Error asking question:'' err])"
    using assms(1,2) by (rule handleSubmit_rejected)
  have run': "handleSubmit documentId axios' now s =
      (s\<lparr>isLoading := False\<rparr>,
       [PreventDefault, Http (PostAskQuestion documentId (question s)),
        ConsoleError ''Error asking question:'' err'])"
    using assms(1,3) by (rule handleSubmit_rejected)
  show ?thesis by (simp add: run run')
qed

theorem failed_ask_is_logged_only_witness:
  "trim (question \<lparr>question = lit ''why?'', isLoading = False, qaPairs = []\<rparr>) \<noteq> []
   \<and> snd (handleSubmit 1 (\<lambda>r. Inl (ErrorPayload DocumentNotReady)) 5
         \<lparr>question = lit ''why?'', isLoading = False, qaPairs = []\<rparr>)
       = [PreventDefault, Http (PostAskQuestion 1 (lit ''why?'')),
          ConsoleError ''Error asking question:'' (ErrorPayload DocumentNotReady)]
   \<and> render_QuestionAnswer (lit ''Report'')
        (fst (handleSubmit 1 (\<lambda>r. Inl (ErrorPayload DocumentNotReady)) 5
           \<lparr>question = lit ''why?'', isLoading = False, qaPairs = []\<rparr>))
       = render_QuestionAnswer (lit ''Report'')
           (fst (handleSubmit 1 (\<lambda>r. Inl NetworkError) 5
              \<lparr>question = lit ''why?'', isLoading = False, qaPairs = []\<rparr>))"
proof -
  have nonblank:
    "trim (question \<lparr>question = lit ''why?'', isLoading = False, qaPairs = []\<rparr>) \<noteq> []"
    by (simp add: trim_def lit_def isWhiteSpace_def)
  have first: "(\<lambda>r. Inl (ErrorPayload DocumentNotReady) :: ask_failure + ask_response)
      (PostAskQuestion 1 (question \<lparr>question = lit ''why?'', isLoading = False, qaPairs = []\<rparr>))
      = Inl (ErrorPayload DocumentNotReady)"
    by simp
  have second: "(\<lambda>r. Inl NetworkError :: ask_failure + ask_response)
      (PostAskQuestion 1 (question \<lparr>question = lit ''why?'', isLoading = False, qaPairs = []\<rparr>))
      = Inl NetworkError"
    by simp
  show ?thesis
    using nonblank failed_ask_is_logged_only
      [where now = 5 and documentTitle = "lit ''Report''" and documentId = 1,
       OF nonblank first second]
    by simp
qed

section \<open>Deleting a document\<close>

lemma filter_other_ids_split:
  assumes "distinct (map doc_id (xs @ d # ys))" and "doc_id d = i"
  shows "filter (\<lambda>doc. doc_id doc \<noteq> i) (xs @ d # ys) = xs @ ys"
proof -
  from assms have "i \<notin> doc_id ` set xs" and "i \<notin> doc_id ` set ys"
    by auto
  then have "\<forall>x \<in> set xs. doc_id x \<noteq> i" and "\<forall>y \<in> set ys. doc_id y \<noteq> i"
    by blast+
  then have "filter (\<lambda>doc. doc_id doc \<noteq> i) xs = xs" and "filter (\<lambda>doc. doc_id doc \<noteq> i) ys = ys"
    by (simp_all add: filter_id_conv)
  with assms(2) show ?thesis by simp
qed

text \<open>
  A delete that runs alone. When nothing else writes the list's state while the request
  is in flight, a confirmed delete sends the delete request and, once the endpoint has
  accepted it, the list is the list before without the entries of that identifier, every
  other entry kept in place and order, and the selection is cleared if the selected
  document had that identifier and kept otherwise.
\<close>

lemma delete_alone_removes_that_document:
  "requests_of (snd (handleDelete True axios i s)) = [DeleteDocument i]
   \<and> (axios (DeleteDocument i) = Inr ok \<longrightarrow>
        set (documents (fst (handleDelete True axios i s)))
          = {d \<in> set (documents s). doc_id d \<noteq> i}
      \<and> subseq (documents (fst (handleDelete True axios i s))) (documents s)
      \<and> (\<forall>xs d ys. documents s = xs @ d # ys \<and> doc_id d = i
            \<and> distinct (map doc_id (documents s))
          \<longrightarrow> documents (fst (handleDelete True axios i s)) = xs @ ys)
      \<and> selectedDocument (fst (handleDelete True axios i s))
          = (if map_option doc_id (selectedDocument s) = Some i then None
             else selectedDocument s)
      \<and> loading (fst (handleDelete True axios i s)) = loading s)"
proof -
  have sent: "requests_of (snd (handleDelete True axios i s)) = [DeleteDocument i]"
    by (simp add: handleDelete_def handleDelete_send_def handleDelete_settle_def
        split: sum.split)
  have accepted: "axios (DeleteDocument i) = Inr ok \<Longrightarrow>
      fst (handleDelete True axios i s) =
        s\<lparr>documents := filter (\<lambda>doc. doc_id doc \<noteq> i) (documents s),
          selectedDocument :=
            (if map_option doc_id (selectedDocument s) = Some i then None
             else selectedDocument s)\<rparr>"
    by (simp add: handleDelete_def handleDelete_send_def handleDelete_settle_def)
  have members: "axios (DeleteDocument i) = Inr ok \<Longrightarrow>
      set (documents (fst (handleDelete True axios i s)))
        = {d \<in> set (documents s). doc_id d \<noteq> i}"
    by (simp add: accepted)
  have order: "axios (DeleteDocument i) = Inr ok \<Longrightarrow>
      subseq (documents (fst (handleDelete True axios i s))) (documents s)"
    by (simp add: accepted)
  have exact: "axios (DeleteDocument i) = Inr ok \<Longrightarrow>
      documents s = xs @ d # ys \<and> doc_id d = i \<and> distinct (map doc_id (documents s))
      \<Longrightarrow> documents (fst (handleDelete True axios i s)) = xs @ ys" for xs d ys
  proof -
    assume ok: "axios (DeleteDocument i) = Inr ok"
      and shape: "documents s = xs @ d # ys \<and> doc_id d = i \<and> distinct (map doc_id (documents s))"
    from shape have docs: "documents s = xs @ d # ys" and hit: "doc_id d = i"
      and ids: "distinct (map doc_id (documents s))"
      by blast+
    from ids have "distinct (map doc_id (xs @ d # ys))" by (simp only: docs)
    then have "filter (\<lambda>doc. doc_id doc \<noteq> i) (xs @ d # ys) = xs @ ys"
      using hit by (rule filter_other_ids_split)
    then show ?thesis by (simp add: accepted [OF ok] docs)
  qed
  have selection: "axios (DeleteDocument i) = Inr ok \<Longrightarrow>
      selectedDocument (fst (handleDelete True axios i s))
        = (if map_option doc_id (selectedDocument s) = Some i then None
           else selectedDocument s)
      \<and> loading (fst (handleDelete True axios i s)) = loading s"
    by (simp add: accepted)
  show ?thesis
    using sent members order exact selection by blast
qed

text \<open>
  C6 fails on the code when deletes overlap. The list shows the documents 1 and 2 and
  nothing is selected. The user confirms the delete of document 1 and, before that request
  has settled, the delete of document 2; both handlers were created in the same render and
  hold the list of both documents. The endpoint accepts both requests. When the first
  settles the list shows document 2 alone; when the second settles, the handler stores its
  own closure's list without document 2, and the list shows document 1 again, which the
  endpoint has deleted: the list after the delete of document 2 is not the list before it
  without document 2. Likewise, a document that is selected while its delete is in flight
  stays selected when the delete settles, because the handler tests the selection of its
  closure.
\<close>

theorem overlapping_deletes_restore_deleted_entry:
  "handleDelete_send True 1 = Some (DeleteDocument 1)
   \<and> handleDelete_send True 2 = Some (DeleteDocument 2)
   \<and> fst (handleDelete_settle
        \<lparr>documents =
           [\<lparr>doc_id = 1, title = lit ''a'', file_url = [], uploaded_at = [], processed = True\<rparr>,
            \<lparr>doc_id = 2, title = lit ''b'', file_url = [], uploaded_at = [], processed = True\<rparr>],
         selectedDocument = None, loading = False\<rparr>
        1 (Inr () :: unit + unit)
        \<lparr>documents =
           [\<lparr>doc_id = 1, title = lit ''a'', file_url = [], uploaded_at = [], processed = True\<rparr>,
            \<lparr>doc_id = 2, title = lit ''b'', file_url = [], uploaded_at = [], processed = True\<rparr>],
         selectedDocument = None, loading = False\<rparr>)
     = \<lparr>documents =
          [\<lparr>doc_id = 2, title = lit ''b'', file_url = [], uploaded_at = [], processed = True\<rparr>],
        selectedDocument = None, loading = False\<rparr>
   \<and> fst (handleDelete_settle
        \<lparr>documents =
           [\<lparr>doc_id = 1, title = lit ''a'', file_url = [], uploaded_at = [], processed = True\<rparr>,
            \<lparr>doc_id = 2, title = lit ''b'', file_url = [], uploaded_at = [], processed = True\<rparr>],
         selectedDocument = None, loading = False\<rparr>
        2 (Inr () :: unit + unit)
        \<lparr>documents =
           [\<lparr>doc_id = 2, title = lit ''b'', file_url = [], uploaded_at = [], processed = True\<rparr>],
         selectedDocument = None, loading = False\<rparr>)
     = \<lparr>documents =
          [\<lparr>doc_id = 1, title = lit ''a'', file_url = [], uploaded_at = [], processed = True\<rparr>],
        selectedDocument = None, loading = False\<rparr>
   \<and> fst (handleDelete_settle
        \<lparr>documents =
           [\<lparr>doc_id = 1, title = lit ''a'', file_url = [], uploaded_at = [], processed = True\<rparr>,
            \<lparr>doc_id = 2, title = lit ''b'', file_url = [], uploaded_at = [], processed = True\<rparr>],
         selectedDocument = None, loading = False\<rparr>
        1 (Inr () :: unit + unit)
        (setSelectedDocument
           (Some \<lparr>doc_id = 1, title = lit ''a'', file_url = [], uploaded_at = [],
                   processed = True\<rparr>)
           \<lparr>documents =
              [\<lparr>doc_id = 1, title = lit ''a'', file_url = [], uploaded_at = [], processed = True\<rparr>,
               \<lparr>doc_id = 2, title = lit ''b'', file_url = [], uploaded_at = [], processed = True\<rparr>],
            selectedDocument = None, loading = False\<rparr>))
     = \<lparr>documents =
          [\<lparr>doc_id = 2, title = lit ''b'', file_url = [], uploaded_at = [], processed = True\<rparr>],
        selectedDocument =
          Some \<lparr>doc_id = 1, title = lit ''a'', file_url = [], uploaded_at = [], processed = True\<rparr>,
        loading = False\<rparr>"
  by (simp add: handleDelete_send_def handleDelete_settle_def setSelectedDocument_def)

section \<open>The processing state the client sees\<close>

text \<open>
  C1, as stated, fails: the state of a document reaches the client as the field
  \<open>processed\<close>, a boolean, and no reading of a boolean yields all four states.
\<close>

theorem four_states_not_in_flag_counterexample:
  "\<not> (\<exists>decode :: bool \<Rightarrow> processing_state. \<forall>st. \<exists>d :: Document. decode (processed d) = st)"
proof
  assume "\<exists>decode :: bool \<Rightarrow> processing_state. \<forall>st. \<exists>d :: Document. decode (processed d) = st"
  then obtain decode :: "bool \<Rightarrow> processing_state"
    where all: "\<And>st. \<exists>d :: Document. decode (processed d) = st"
    by blast
  have two: "st = decode True \<or> st = decode False" for st
    using all [of st] by (metis (full_types))
  from two [of pending] two [of processing] two [of ready]
  show False by auto
qed

text \<open>
  C1, amended. The processing state of a listed document is the two-valued flag
  \<open>processed\<close>: the badge reads \<open>Processed\<close> when it is set and \<open>Processing...\<close> when
  it is not, and for a selected document the question form is rendered when it is set,
  the processing notice when it is not.
\<close>

theorem processing_state_is_a_flag:
  "status_badge d \<in> {''Processed'', ''Processing...''}
   \<and> (status_badge d = ''Processed'') = processed d
   \<and> (right_panel (Some d) = QuestionAnswerPanel (doc_id d) (title d)) = processed d
   \<and> (right_panel (Some d) = ProcessingPanel (title d)) = (\<not> processed d)"
  by (simp add: status_badge_def right_panel_def)

section \<open>The lifetime of the exchange history\<close>

lemma reconcile_fresh: "reconcile s None = Some c \<Longrightarrow> c = qa_init"
  by (simp add: reconcile_def split: option.splits)

lemma reconcile_hidden: "form_props s = None \<Longrightarrow> reconcile s mounted = None"
  by (simp add: reconcile_def)

lemma handleSubmit_effects:
  "set (snd (handleSubmit documentId axios now s))
     \<subseteq> {PreventDefault, Http (PostAskQuestion documentId (question s))}
        \<union> range (ConsoleError ''Error asking question:'')"
  by (auto simp: handleSubmit_def handleSubmit_send_def handleSubmit_settle_def
      split: sum.splits)

text \<open>
  C8 fails on the code when the user goes from one processed document straight to
  another. The list is fetched with two processed documents; the user selects the first,
  asks \<open>why?\<close> and is answered \<open>42\<close>, then selects the second. The
  \<^verbatim>\<open><QuestionAnswer>\<close> element is rendered again at the same place, without a key, so the
  component is not remounted: the form now carries the second document's identifier and
  title, and its history still holds the exchange about the first.
\<close>

theorem history_kept_across_documents:
  "form_props (list_state
      (click_document
         \<lparr>doc_id = 2, title = lit ''b'', file_url = [], uploaded_at = [], processed = True\<rparr>
         (fst (submit_question (\<lambda>r. Inr \<lparr>data_answer = lit ''42''\<rparr> :: unit + ask_response) 1000
            (type_question (lit ''why?'')
               (click_document
                  \<lparr>doc_id = 1, title = lit ''a'', file_url = [], uploaded_at = [], processed = True\<rparr>
                  (update_list
                     (fetchDocuments (Inr
                        [\<lparr>doc_id = 1, title = lit ''a'', file_url = [], uploaded_at = [],
                            processed = True\<rparr>,
                         \<lparr>doc_id = 2, title = lit ''b'', file_url = [], uploaded_at = [],
                            processed = True\<rparr>] :: unit + Document list))
                     mount_DocumentList)))))))
     = Some (2, lit ''b'')
   \<and> map_option qaPairs (child
      (click_document
         \<lparr>doc_id = 2, title = lit ''b'', file_url = [], uploaded_at = [], processed = True\<rparr>
         (fst (submit_question (\<lambda>r. Inr \<lparr>data_answer = lit ''42''\<rparr> :: unit + ask_response) 1000
            (type_question (lit ''why?'')
               (click_document
                  \<lparr>doc_id = 1, title = lit ''a'', file_url = [], uploaded_at = [], processed = True\<rparr>
                  (update_list
                     (fetchDocuments (Inr
                        [\<lparr>doc_id = 1, title = lit ''a'', file_url = [], uploaded_at = [],
                            processed = True\<rparr>,
                         \<lparr>doc_id = 2, title = lit ''b'', file_url = [], uploaded_at = [],
                            processed = True\<rparr>] :: unit + Document list))
                     mount_DocumentList)))))))
     = Some [\<lparr>pair_question = lit ''why?'', pair_answer = lit ''42'', pair_timestamp = 1000\<rparr>]"
proof -
  let ?a = "\<lparr>doc_id = 1, title = lit ''a'', file_url = [], uploaded_at = [], processed = True\<rparr>"
  let ?b = "\<lparr>doc_id = 2, title = lit ''b'', file_url = [], uploaded_at = [], processed = True\<rparr>"
  let ?axios = "\<lambda>r. Inr \<lparr>data_answer = lit ''42''\<rparr> :: unit + ask_response"
  let ?t1 = "update_list (fetchDocuments (Inr [?a, ?b] :: unit + Document list)) mount_DocumentList"
  have t1: "?t1 = \<lparr>list_state = \<lparr>documents = [?a, ?b], selectedDocument = None, loading = False\<rparr>,
                   child = None\<rparr>"
    by (simp add: update_list_def mount_DocumentList_def fetchDocuments_def doc_list_init_def
        reconcile_def form_props_def render_DocumentList_def right_panel_def)
  have t2: "click_document ?a ?t1 =
      \<lparr>list_state = \<lparr>documents = [?a, ?b], selectedDocument = Some ?a, loading = False\<rparr>,
       child = Some qa_init\<rparr>"
    by (simp only: t1)
      (simp add: click_document_def update_list_def setSelectedDocument_def
        reconcile_def form_props_def render_DocumentList_def right_panel_def)
  have t3: "type_question (lit ''why?'') (click_document ?a ?t1) =
      \<lparr>list_state = \<lparr>documents = [?a, ?b], selectedDocument = Some ?a, loading = False\<rparr>,
       child = Some \<lparr>question = lit ''why?'', isLoading = False, qaPairs = []\<rparr>\<rparr>"
    by (simp only: t2) (simp add: type_question_def setQuestion_def qa_init_def)
  have nonblank: "trim (lit ''why?'') \<noteq> []"
    by (simp add: trim_def lit_def isWhiteSpace_def)
  have t4: "fst (submit_question ?axios 1000 (type_question (lit ''why?'') (click_document ?a ?t1))) =
      \<lparr>list_state = \<lparr>documents = [?a, ?b], selectedDocument = Some ?a, loading = False\<rparr>,
       child = Some \<lparr>question = [], isLoading = False,
         qaPairs = [\<lparr>pair_question = lit ''why?'', pair_answer = lit ''42'',
                     pair_timestamp = 1000\<rparr>]\<rparr>\<rparr>"
    using nonblank
    by (simp only: t3)
      (simp add: submit_question_def form_props_def render_DocumentList_def right_panel_def
        handleSubmit_def handleSubmit_send_def handleSubmit_settle_def)
  show ?thesis
    by (simp only: t4)
      (simp add: click_document_def update_list_def setSelectedDocument_def
        reconcile_def form_props_def render_DocumentList_def right_panel_def)
qed

text \<open>
  The other ways to a form start it afresh. After a reload, or when the dashboard gives
  the list a new key after an upload, the list mounts without a form; a render without
  a form (nothing selected, or an unprocessed document selected) discards the form's
  state; and a form that comes on screen where none was has an empty history. The
  handler keeps an exchange nowhere but in the form's state: its effects are the request
  and, on failure, a console message.
\<close>

lemma fresh_form_has_no_history:
  "child mount_DocumentList = None
   \<and> (form_props (f (list_state t)) = None \<longrightarrow> child (update_list f t) = None)
   \<and> (child t = None \<and> child (update_list f t) = Some c \<longrightarrow>
        qaPairs c = [] \<and> exchanges (render_QuestionAnswer documentTitle c) = [])
   \<and> set (snd (handleSubmit documentId axios now s))
        \<subseteq> {PreventDefault, Http (PostAskQuestion documentId (question s))}
           \<union> range (ConsoleError ''Error asking question:'')"
proof -
  have reload: "child mount_DocumentList = None"
    by (simp add: mount_DocumentList_def reconcile_def form_props_def render_DocumentList_def
        doc_list_init_def)
  have hidden: "form_props (f (list_state t)) = None \<Longrightarrow> child (update_list f t) = None"
    by (simp add: update_list_def reconcile_hidden)
  have fresh: "child t = None \<and> child (update_list f t) = Some c \<Longrightarrow>
      qaPairs c = [] \<and> exchanges (render_QuestionAnswer documentTitle c) = []"
  proof -
    assume "child t = None \<and> child (update_list f t) = Some c"
    then have none: "child t = None" and some: "child (update_list f t) = Some c"
      by blast+
    from some have "reconcile (f (list_state t)) None = Some c"
      by (simp add: update_list_def none)
    then have "c = qa_init" by (rule reconcile_fresh)
    then show ?thesis by (simp add: qa_init_def render_QuestionAnswer_def)
  qed
  show ?thesis
    using reload hidden fresh handleSubmit_effects [of documentId axios now s] by blast
qed

text \<open>
  The same session with a detour: between the two processed documents the user selects
  an unprocessed one. The form is unmounted for the notice, and the form for the second
  document starts with an empty history.
\<close>

lemma history_reset_by_detour:
  "map_option qaPairs (child
      (click_document
         \<lparr>doc_id = 2, title = lit ''b'', file_url = [], uploaded_at = [], processed = True\<rparr>
         (click_document
            \<lparr>doc_id = 3, title = lit ''c'', file_url = [], uploaded_at = [], processed = False\<rparr>
            \<lparr>list_state =
               \<lparr>documents = [],
                selectedDocument = Some
                  \<lparr>doc_id = 1, title = lit ''a'', file_url = [], uploaded_at = [],
                    processed = True\<rparr>,
                loading = False\<rparr>,
             child = Some \<lparr>question = [], isLoading = False,
               qaPairs = [\<lparr>pair_question = lit ''why?'', pair_answer = lit ''42'',
                           pair_timestamp = 1000\<rparr>]\<rparr>\<rparr>)))
     = Some []"
  by (simp add: click_document_def update_list_def setSelectedDocument_def reconcile_def
      form_props_def render_DocumentList_def right_panel_def qa_init_def)

section \<open>The authorization header follows the token\<close>

lemma auth_inv_page_load: "auth_inv (auth_effect (auth_mount stored))"
  by (simp add: auth_inv_def auth_effect_def auth_mount_def split: option.split)

lemma auth_inv_logout: "auth_inv (logout w)"
  by (simp add: auth_inv_def logout_def)

text \<open>
  A rejected request leaves everything as it was; an accepted request whose token the
  store takes writes token, user, stored token and header together.
\<close>

lemma login_rejected:
  "axios (PostLogin name password) = Inl err \<Longrightarrow>
     fst (login axios setItem_throws name password w) = False
     \<and> fst (snd (login axios setItem_throws name password w)) = w"
  by (simp add: login_def)

lemma register_rejected:
  "axios (PostRegister name password email) = Inl err \<Longrightarrow>
     fst (register axios setItem_throws name password email w) = False
     \<and> fst (snd (register axios setItem_throws name password email w)) = w"
  by (simp add: register_def)

lemma login_stored:
  "axios (PostLogin name password) = Inr data \<Longrightarrow>
     fst (login axios False name password w) = True
     \<and> fst (snd (login axios False name password w)) =
         w\<lparr>token := Some (data_token data),
           user := Some \<lparr>user_id = data_user_id data, username = name\<rparr>,
           localStorage_token := Some (data_token data),
           authorization := Some (lit ''Token '' @ data_token data)\<rparr>
     \<and> auth_inv (fst (snd (login axios False name password w)))"
  by (simp add: login_def auth_inv_def)

lemma register_stored:
  "axios (PostRegister name password email) = Inr data \<Longrightarrow>
     fst (register axios False name password email w) = True
     \<and> fst (snd (register axios False name password email w)) =
         w\<lparr>token := Some (data_token data),
           user := Some \<lparr>user_id = data_user_id data, username = name\<rparr>,
           localStorage_token := Some (data_token data),
           authorization := Some (lit ''Token '' @ data_token data)\<rparr>
     \<and> auth_inv (fst (snd (register axios False name password email w)))"
  by (simp add: register_def auth_inv_def)

lemma auth_inv_call: "store_accepts c \<Longrightarrow> auth_inv w \<Longrightarrow> auth_inv (auth_call c w)"
proof (cases c)
  case (Login name password outcome setItem_throws)
  assume "store_accepts c" and "auth_inv w"
  with Login show ?thesis
    by (cases outcome) (simp_all add: login_def auth_inv_def)
next
  case (Register name password email outcome setItem_throws)
  assume "store_accepts c" and "auth_inv w"
  with Register show ?thesis
    by (cases outcome) (simp_all add: register_def auth_inv_def)
next
  case Logout
  then show ?thesis by (simp add: auth_inv_logout)
qed

text \<open>
  As long as the store takes every write, the header follows the token through any
  sequence of calls after a page load.
\<close>

lemma auth_inv_calls:
  "list_all store_accepts cs \<Longrightarrow> auth_inv w \<Longrightarrow> auth_inv (auth_calls cs w)"
  by (induction cs arbitrary: w) (simp_all add: auth_inv_call)

lemma auth_inv_after_page_load:
  "list_all store_accepts cs \<Longrightarrow> auth_inv (auth_calls cs (auth_effect (auth_mount stored)))"
  by (rule auth_inv_calls) (simp_all add: auth_inv_page_load)

text \<open>
  C10 fails on the code when \<^verbatim>\<open>localStorage.setItem\<close> throws. The page has loaded with
  the stored token \<open>t0\<close>, so token, stored token and header agree. A login is accepted
  by the endpoint with the token \<open>t1\<close>, and the store refuses the write. The call
  returns false, yet token and user are those of the payload, while the stored token and
  the header are still those of \<open>t0\<close>: the header is set although the context token
  does not match the stored one, and the failed call has not left the context unchanged.
\<close>

theorem refused_store_write_breaks_auth_invariant:
  "auth_effect (auth_mount (Some (lit ''t0'')))
     = \<lparr>user = None, token = Some (lit ''t0''), auth_isLoading = False,
        localStorage_token = Some (lit ''t0''), authorization = Some (lit ''Token t0'')\<rparr>
   \<and> auth_inv (auth_effect (auth_mount (Some (lit ''t0''))))
   \<and> login (\<lambda>r. Inr \<lparr>data_token = lit ''t1'', data_user_id = 5\<rparr> :: unit + auth_payload) True
        (lit ''ann'') (lit ''pw'') (auth_effect (auth_mount (Some (lit ''t0''))))
     = (False,
        \<lparr>user = Some \<lparr>user_id = 5, username = lit ''ann''\<rparr>, token = Some (lit ''t1''),
         auth_isLoading = False, localStorage_token = Some (lit ''t0''),
         authorization = Some (lit ''Token t0'')\<rparr>,
        [Http (PostLogin (lit ''ann'') (lit ''pw'')), ConsoleError ''Login error:'' SetItemThrew])
   \<and> \<not> auth_inv (fst (snd
        (login (\<lambda>r. Inr \<lparr>data_token = lit ''t1'', data_user_id = 5\<rparr> :: unit + auth_payload) True
           (lit ''ann'') (lit ''pw'') (auth_effect (auth_mount (Some (lit ''t0'')))))))"
proof -
  let ?w = "auth_effect (auth_mount (Some (lit ''t0'')))"
  let ?axios = "\<lambda>r. Inr \<lparr>data_token = lit ''t1'', data_user_id = 5\<rparr> :: unit + auth_payload"
  have loaded: "?w = \<lparr>user = None, token = Some (lit ''t0''), auth_isLoading = False,
      localStorage_token = Some (lit ''t0''), authorization = Some (lit ''Token t0'')\<rparr>"
    by (simp add: auth_effect_def auth_mount_def lit_def)
  have run: "login ?axios True (lit ''ann'') (lit ''pw'') ?w
      = (False,
         \<lparr>user = Some \<lparr>user_id = 5, username = lit ''ann''\<rparr>, token = Some (lit ''t1''),
          auth_isLoading = False, localStorage_token = Some (lit ''t0''),
          authorization = Some (lit ''Token t0'')\<rparr>,
         [Http (PostLogin (lit ''ann'') (lit ''pw'')), ConsoleError ''Login error:'' SetItemThrew])"
    by (simp only: loaded) (simp add: login_def)
  have broken: "\<not> auth_inv (fst (snd (login ?axios True (lit ''ann'') (lit ''pw'') ?w)))"
    by (simp only: run) (simp add: auth_inv_def lit_def)
  from loaded auth_inv_page_load [of "Some (lit ''t0'')"] run broken
  show ?thesis by blast
qed

section \<open>Ranking and clamping of query results\<close>

lemma ranks_before_total: "\<not> ranks_before a b \<Longrightarrow> ranks_before b a"
  by (auto simp: ranks_before_def)

lemma ranks_before_trans: "ranks_before a b \<Longrightarrow> ranks_before b c \<Longrightarrow> ranks_before a c"
  by (auto simp: ranks_before_def)

lemma set_place: "set (place x ys) = insert x (set ys)"
  by (induction ys) auto

lemma length_place: "length (place x ys) = Suc (length ys)"
  by (induction ys) auto

lemma ranked_place:
  "sorted_wrt ranks_before ys \<Longrightarrow> sorted_wrt ranks_before (place x ys)"
proof (induction ys)
  case Nil
  show ?case by simp
next
  case (Cons y ys)
  show ?case
  proof (cases "ranks_before x y")
    case True
    have "ranks_before x z" if "z \<in> set ys" for z
      using Cons.prems that True by (auto intro: ranks_before_trans)
    with True Cons.prems show ?thesis by simp
  next
    case False
    then have "ranks_before y x" by (rule ranks_before_total)
    with False Cons show ?thesis by (auto simp: set_place)
  qed
qed

lemma set_rank_all: "set (rank_all xs) = set xs"
  by (induction xs) (simp_all add: set_place)

lemma length_rank_all: "length (rank_all xs) = length xs"
  by (induction xs) (simp_all add: length_place)

lemma ranked_rank_all: "sorted_wrt ranks_before (rank_all xs)"
  by (induction xs) (simp_all add: ranked_place)

lemma ranked_take: "sorted_wrt ranks_before xs \<Longrightarrow> sorted_wrt ranks_before (take k xs)"
proof -
  assume "sorted_wrt ranks_before xs"
  then have "sorted_wrt ranks_before (take k xs @ drop k xs)" by simp
  then show ?thesis by (simp only: sorted_wrt_append)
qed

text \<open>
  C5. For a document with a built index of passages \<open>ps\<close>, every query vector and every
  \<open>k\<close>, the query succeeds and returns \<open>min k (length ps)\<close> results, hence never more
  than that and never an error for a large \<open>k\<close>; each result is a passage of the document
  with its cosine similarity to the query vector, and of any two results the earlier has
  the greater similarity or, at equal similarity, the ordinal that is not greater.
\<close>

theorem query_clamped_and_ranked:
  assumes "idx d = Some ps"
  shows "\<exists>rs. query idx d v k = Inr rs
       \<and> length rs = min k (length ps)
       \<and> length rs \<le> min k (length ps)
       \<and> sorted_wrt (\<lambda>a b. snd b < snd a
                          \<or> (snd a = snd b \<and> ordinal (fst a) \<le> ordinal (fst b))) rs
       \<and> set rs \<subseteq> (\<lambda>p. (p, cosine v (vector p))) ` set ps"
proof -
  let ?scored = "map (\<lambda>p. (p, cosine v (vector p))) ps"
  let ?rs = "take k (rank_all ?scored)"
  have result: "query idx d v k = Inr ?rs"
    using assms by (simp add: query_def)
  have len: "length ?rs = min k (length ps)"
    by (simp add: length_rank_all min.commute)
  have "sorted_wrt ranks_before ?rs"
    by (rule ranked_take) (rule ranked_rank_all)
  then have order: "sorted_wrt (\<lambda>a b. snd b < snd a
      \<or> (snd a = snd b \<and> ordinal (fst a) \<le> ordinal (fst b))) ?rs"
    by (simp add: ranks_before_def [abs_def])
  have "set ?rs \<subseteq> set (rank_all ?scored)" by (rule set_take_subset)
  then have members: "set ?rs \<subseteq> (\<lambda>p. (p, cosine v (vector p))) ` set ps"
    by (simp add: set_rank_all)
  from result len order members show ?thesis by simp
qed

theorem query_clamped_and_ranked_witness:
  "[7 \<mapsto> [\<lparr>ordinal = 0, passage_text = lit ''x'', vector = [1, 0]\<rparr>,
          \<lparr>ordinal = 1, passage_text = lit ''y'', vector = [0, 1]\<rparr>,
          \<lparr>ordinal = 2, passage_text = lit ''z'', vector = [1, 0]\<rparr>]] (7::int)
     = Some [\<lparr>ordinal = 0, passage_text = lit ''x'', vector = [1, 0]\<rparr>,
             \<lparr>ordinal = 1, passage_text = lit ''y'', vector = [0, 1]\<rparr>,
             \<lparr>ordinal = 2, passage_text = lit ''z'', vector = [1, 0]\<rparr>]
   \<and> query [7 \<mapsto> [\<lparr>ordinal = 0, passage_text = lit ''x'', vector = [1, 0]\<rparr>,
                  \<lparr>ordinal = 1, passage_text = lit ''y'', vector = [0, 1]\<rparr>,
                  \<lparr>ordinal = 2, passage_text = lit ''z'', vector = [1, 0]\<rparr>]] 7 [1, 0] 10
     = Inr [(\<lparr>ordinal = 0, passage_text = lit ''x'', vector = [1, 0]\<rparr>, 1),
            (\<lparr>ordinal = 2, passage_text = lit ''z'', vector = [1, 0]\<rparr>, 1),
            (\<lparr>ordinal = 1, passage_text = lit ''y'', vector = [0, 1]\<rparr>, 0)]
   \<and> (\<exists>rs. query [7 \<mapsto> [\<lparr>ordinal = 0, passage_text = lit ''x'', vector = [1, 0]\<rparr>,
                  \<lparr>ordinal = 1, passage_text = lit ''y'', vector = [0, 1]\<rparr>,
                  \<lparr>ordinal = 2, passage_text = lit ''z'', vector = [1, 0]\<rparr>]] 7 [1, 0] 10
          = Inr rs \<and> length rs = 3)"
proof -
  let ?p0 = "\<lparr>ordinal = 0, passage_text = lit ''x'', vector = [1, 0]\<rparr>"
  let ?p1 = "\<lparr>ordinal = 1, passage_text = lit ''y'', vector = [0, 1]\<rparr>"
  let ?p2 = "\<lparr>ordinal = 2, passage_text = lit ''z'', vector = [1, 0]\<rparr>"
  let ?idx = "[(7::int) \<mapsto> [?p0, ?p1, ?p2]]"
  have built: "?idx 7 = Some [?p0, ?p1, ?p2]" by simp
  have computed: "query ?idx 7 [1, 0] 10 = Inr [(?p0, 1), (?p2, 1), (?p1, 0)]"
    by (simp add: query_def cosine_def dot_def ranks_before_def)
  from query_clamped_and_ranked
    [where idx = ?idx and d = 7 and ps = "[?p0, ?p1, ?p2]" and v = "[1, 0]" and k = 10,
     OF built]
  obtain rs where returned: "query ?idx 7 [1, 0] 10 = Inr rs"
    and clamped: "length rs = min 10 (length [?p0, ?p1, ?p2])"
    by blast
  from clamped have "length rs = 3" by simp
  with returned have "\<exists>rs. query ?idx 7 [1, 0] 10 = Inr rs \<and> length rs = 3"
    by blast
  with built computed show ?thesis by blast
qed

section \<open>Asking only about ready documents\<close>

lemma query_error: "query idx d v k = Inl e \<Longrightarrow> e = IndexNotReady"
  by (simp add: query_def split: option.splits)

lemma answer_not_ready_iff:
  "(answer states idx embedder generate K documentId q = Inl DocumentNotReady)
     = (states documentId \<noteq> Some ready)"
proof (cases "states documentId = Some ready")
  case False
  then show ?thesis by (simp add: answer_def)
next
  case True
  have "answer states idx embedder generate K documentId q \<noteq> Inl DocumentNotReady"
  proof (cases "query idx documentId (embedder q) K")
    case (Inl e)
    then have "e = IndexNotReady" by (rule query_error)
    with True Inl show ?thesis by (simp add: answer_def)
  next
    case (Inr rs)
    with True show ?thesis
      by (cases rs) (simp_all add: answer_def split: option.split)
  qed
  with True show ?thesis by simp
qed

lemma form_props_Some:
  "form_props s = Some (i, t) \<Longrightarrow>
     \<exists>d. selectedDocument s = Some d \<and> processed d \<and> doc_id d = i \<and> title d = t"
  by (auto simp: form_props_def render_DocumentList_def right_panel_def
      split: if_splits option.splits)

lemma submit_question_requests:
  assumes "r \<in> set (requests_of (snd (submit_question axios now t)))"
  shows "\<exists>d c. selectedDocument (list_state t) = Some d \<and> processed d \<and> child t = Some c
           \<and> r = PostAskQuestion (doc_id d) (question c)"
proof (cases "form_props (list_state t)")
  case None
  with assms show ?thesis by (simp add: submit_question_def)
next
  case (Some props)
  obtain i ttl where props: "props = (i, ttl)" by (cases props)
  from Some props obtain d where d: "selectedDocument (list_state t) = Some d" "processed d"
      "doc_id d = i"
    using form_props_Some by blast
  show ?thesis
  proof (cases "child t")
    case None
    with assms Some props show ?thesis by (simp add: submit_question_def)
  next
    case (Some c)
    with assms \<open>form_props (list_state t) = Some props\<close> props
    have "r \<in> set (requests_of (snd (handleSubmit i axios now c)))"
      by (simp add: submit_question_def split: prod.splits)
    then have "r = PostAskQuestion i (question c)"
      by (auto simp: handleSubmit_def handleSubmit_send_def handleSubmit_settle_def
          split: if_splits sum.splits)
    with d Some show ?thesis by simp
  qed
qed

text \<open>
  C3. The answerer fails with \<open>DocumentNotReady\<close> for every document whose state is not
  \<open>ready\<close> (and with that error for no other). In the client, a selected document whose
  \<open>processed\<close> flag is false gets the processing notice instead of the question form, no
  form state is mounted, a submission does nothing, and every ask request the form does
  send names a selected document whose flag is true.
\<close>

theorem unready_documents_are_not_asked:
  "(states documentId \<noteq> Some ready \<longrightarrow>
      answer states idx embedder generate K documentId q = Inl DocumentNotReady)
   \<and> (answer states idx embedder generate K documentId q = Inl DocumentNotReady \<longrightarrow>
      states documentId \<noteq> Some ready)
   \<and> (selectedDocument (list_state t) = Some d \<and> \<not> processed d \<longrightarrow>
        right_panel (selectedDocument (list_state t)) = ProcessingPanel (title d)
        \<and> form_props (list_state t) = None
        \<and> reconcile (list_state t) mounted = None
        \<and> submit_question axios now t = (t, []))
   \<and> (r \<in> set (requests_of (snd (submit_question axios now t))) \<longrightarrow>
        (\<exists>d' (c::qa_state). selectedDocument (list_state t) = Some d' \<and> processed d'
           \<and> r = PostAskQuestion (doc_id d') (question c)))"
proof -
  have notice: "selectedDocument (list_state t) = Some d \<and> \<not> processed d \<Longrightarrow>
      right_panel (selectedDocument (list_state t)) = ProcessingPanel (title d)
      \<and> form_props (list_state t) = None"
    by (auto simp: right_panel_def form_props_def render_DocumentList_def)
  then have inert: "selectedDocument (list_state t) = Some d \<and> \<not> processed d \<Longrightarrow>
      reconcile (list_state t) mounted = None \<and> submit_question axios now t = (t, [])"
    by (simp add: reconcile_def submit_question_def)
  have a: "states documentId \<noteq> Some ready \<longrightarrow>
      answer states idx embedder generate K documentId q = Inl DocumentNotReady"
    and b: "answer states idx embedder generate K documentId q = Inl DocumentNotReady \<longrightarrow>
      states documentId \<noteq> Some ready"
    using answer_not_ready_iff [of states idx embedder generate K documentId q] by simp_all
  have c: "selectedDocument (list_state t) = Some d \<and> \<not> processed d \<longrightarrow>
      right_panel (selectedDocument (list_state t)) = ProcessingPanel (title d)
      \<and> form_props (list_state t) = None
      \<and> reconcile (list_state t) mounted = None
      \<and> submit_question axios now t = (t, [])"
    using notice inert by blast
  have e: "r \<in> set (requests_of (snd (submit_question axios now t))) \<longrightarrow>
      (\<exists>d' (c::qa_state). selectedDocument (list_state t) = Some d' \<and> processed d'
         \<and> r = PostAskQuestion (doc_id d') (question c))"
    using submit_question_requests [of r axios now t] by blast
  show ?thesis
    by (rule conjI, rule a, rule conjI, rule b, rule conjI, rule c, rule e)
qed

theorem unready_documents_are_not_asked_witness:
  "[1 \<mapsto> processing] (1::int) \<noteq> Some ready
   \<and> answer [1 \<mapsto> processing] Map.empty (\<lambda>x. []) (\<lambda>x y. None) 3 1 (lit ''why?'')
       = Inl DocumentNotReady
   \<and> form_props
        \<lparr>documents = [],
         selectedDocument = Some \<lparr>doc_id = 1, title = lit ''a'', file_url = [],
           uploaded_at = [], processed = False\<rparr>,
         loading = False\<rparr> = None
   \<and> snd (submit_question (\<lambda>x. Inl () :: unit + ask_response) 0
        \<lparr>list_state = \<lparr>documents = [],
           selectedDocument = Some \<lparr>doc_id = 1, title = lit ''a'', file_url = [],
             uploaded_at = [], processed = False\<rparr>,
           loading = False\<rparr>,
         child = None\<rparr>) = []"
proof -
  let ?d = "\<lparr>doc_id = 1, title = lit ''a'', file_url = [], uploaded_at = [], processed = False\<rparr>"
  let ?s = "\<lparr>documents = [], selectedDocument = Some ?d, loading = False\<rparr>"
  let ?t = "\<lparr>list_state = ?s, child = None\<rparr>"
  let ?states = "[(1::int) \<mapsto> processing]"
  note fact = unready_documents_are_not_asked
    [where states = ?states and documentId = 1 and idx = Map.empty and embedder = "\<lambda>x. []"
       and generate = "\<lambda>x y. None" and K = 3 and q = "lit ''why?''" and t = ?t and d = ?d
       and axios = "\<lambda>x. Inl () :: unit + ask_response" and now = 0]
  have unready: "?states 1 \<noteq> Some ready" by simp
  have selected: "selectedDocument (list_state ?t) = Some ?d \<and> \<not> processed ?d" by simp
  from fact unready
  have a: "answer ?states Map.empty (\<lambda>x. []) (\<lambda>x y. None) 3 1 (lit ''why?'') = Inl DocumentNotReady"
    by blast
  from fact selected
  have b: "form_props (list_state ?t) = None"
    and c: "submit_question (\<lambda>x. Inl () :: unit + ask_response) 0 ?t = (?t, [])"
    by blast+
  from b have b': "form_props ?s = None" by simp
  from c have c': "snd (submit_question (\<lambda>x. Inl () :: unit + ask_response) 0 ?t) = []" by simp
  from unready a b' c' show ?thesis by blast
qed

section \<open>File types accepted for ingestion\<close>

text \<open>
  C7. The extractor accepts PDF and plain-text files and no others: a file of any other
  type fails with \<open>UnsupportedFormat\<close>, and only such a file does. The extensions the
  upload form's file input accepts are those of the two accepted types.
\<close>

theorem only_pdf_and_text_are_ingested:
  "(type_of_file f \<notin> {PDF, PlainText} \<longrightarrow> extract_blocks f = Inl UnsupportedFormat)
   \<and> (extract_blocks f = Inl UnsupportedFormat \<longrightarrow> type_of_file f \<notin> {PDF, PlainText})
   \<and> (extract_blocks f = Inr blocks \<longrightarrow> type_of_file f \<in> {PDF, PlainText})
   \<and> map type_of_extension DocumentUpload_accept = [PDF, PlainText]"
proof -
  have types: "map type_of_extension DocumentUpload_accept = [PDF, PlainText]"
    by (simp add: DocumentUpload_accept_def type_of_extension_def)
  show ?thesis
    using types by (cases f rule: extract_blocks.cases) simp_all
qed

theorem only_pdf_and_text_are_ingested_witness:
  "type_of_file OtherFile \<notin> {PDF, PlainText}
   \<and> extract_blocks OtherFile = Inl UnsupportedFormat
   \<and> extract_blocks (TextFile (Some (lit ''hello''))) = Inr [lit ''hello'']
   \<and> type_of_file (TextFile (Some (lit ''hello''))) \<in> {PDF, PlainText}
   \<and> extract_blocks (PdfFile (Some [lit ''page one'', [], lit ''page three'']))
       = Inr [lit ''page one'', lit ''page three'']"
proof -
  have other: "type_of_file OtherFile \<notin> {PDF, PlainText}" by simp
  have text_blocks: "extract_blocks (TextFile (Some (lit ''hello''))) = Inr [lit ''hello'']" by simp
  have pdf_blocks: "extract_blocks (PdfFile (Some [lit ''page one'', [], lit ''page three'']))
      = Inr [lit ''page one'', lit ''page three'']"
    by (simp add: lit_def)
  from only_pdf_and_text_are_ingested [of OtherFile] other
  have rejected: "extract_blocks OtherFile = Inl UnsupportedFormat" by blast
  from only_pdf_and_text_are_ingested [of "TextFile (Some (lit ''hello''))" "[lit ''hello'']"]
    text_blocks
  have accepted: "type_of_file (TextFile (Some (lit ''hello''))) \<in> {PDF, PlainText}" by blast
  from other rejected text_blocks accepted pdf_blocks show ?thesis by blast
qed

end
